theory Spec2Isabelle
  imports Main "HOL-Library.Multiset"
begin

section \<open>Exceptions\<close>

text \<open>
  The exceptions of the source; \<open>ProviderError\<close> is any exception of a call to an
  outside service, \<open>DecodeError\<close> one of base64 or UTF-8 decoding, \<open>OverflowError\<close>
  that of an integer the storage engine cannot hold.
\<close>

datatype error =
  KeyError | ValueError | TypeError | IntegrityError | DecodeError | ProviderError | OverflowError

section \<open>Python strings\<close>

text \<open>
  A Python \<open>str\<close> is modelled as a \<open>string\<close>; a \<open>char\<close> stands for a code point
  below 256. \<open>py_isspace\<close> is \<open>str.isspace\<close> on one such code point: the characters
  that \<open>str.strip()\<close> removes.
\<close>

definition py_isspace :: "char \<Rightarrow> bool" where
  "py_isspace c = ((of_char c :: nat) \<in> {9, 10, 11, 12, 13, 28, 29, 30, 31, 32, 133, 160})"

definition strip :: "string \<Rightarrow> string" where
  "strip s = rev (dropWhile py_isspace (rev (dropWhile py_isspace s)))"

text \<open>
  \<open>s.split(sep, maxsplit)\<close> for a one-character separator: at most \<open>n\<close> cuts, from
  the left; \<open>acc\<close> holds the current piece, reversed.
\<close>

fun split_max :: "char \<Rightarrow> nat \<Rightarrow> string \<Rightarrow> string \<Rightarrow> string list" where
  "split_max sep n acc [] = [rev acc]"
| "split_max sep n acc (c # cs) =
     (if c = sep \<and> 0 < n then rev acc # split_max sep (n - 1) [] cs
      else split_max sep n (c # acc) cs)"

text \<open>\<open>s.split(sep)\<close>: no limit on the cuts (a string has at most \<open>length s\<close> separators).\<close>

definition py_split :: "char \<Rightarrow> string \<Rightarrow> string list" where
  "py_split sep s = split_max sep (length s) [] s"

text \<open>\<open>s.startswith(p)\<close>.\<close>

definition startswith :: "string \<Rightarrow> string \<Rightarrow> bool" where
  "startswith s p = (take (length p) s = p)"

text \<open>The decimal digit of a number below ten, as a character.\<close>

definition digit_char :: "nat \<Rightarrow> char" where
  "digit_char n = ''0123456789'' ! (n mod 10)"

abbreviation newline :: char where
  "newline \<equiv> CHR 0x0A"

section \<open>Meeting details (modules/llm\_processor.py)\<close>

text \<open>
  \<open>LLMProcessor.extract_meeting_details\<close> after \<open>result = self.generate_text(prompt)\<close>:
  the generated text is the input, the dictionary is a map built line by line.
  \<open>key, value = line.split(':', 1)\<close> raises ValueError unless the split has two pieces.
\<close>

fun parse_lines :: "string list \<Rightarrow> (string \<rightharpoonup> string) \<Rightarrow> error + (string \<rightharpoonup> string)" where
  "parse_lines [] meeting_details = Inr meeting_details"
| "parse_lines (line # rest) meeting_details =
     (if CHR '':'' \<in> set line then
        (case split_max (CHR '':'') 1 [] line of
           [key, val] \<Rightarrow> parse_lines rest (meeting_details(strip key \<mapsto> strip val))
         | _ \<Rightarrow> Inl ValueError)
      else parse_lines rest meeting_details)"

definition extract_meeting_details :: "string \<Rightarrow> error + (string \<rightharpoonup> string)" where
  "extract_meeting_details result = parse_lines (py_split newline (strip result)) Map.empty"

text \<open>
  The parser as the specification words it: a line without a colon gives nothing; a line
  with one gives the stripped text before its first colon as key and the stripped text
  after it as value; a later line with the same key replaces an earlier one.
\<close>

definition spec_line_pair :: "string \<Rightarrow> (string \<times> string) option" where
  "spec_line_pair line =
     (if CHR '':'' \<in> set line
      then Some (strip (takeWhile (\<lambda>c. c \<noteq> CHR '':'') line),
                 strip (tl (dropWhile (\<lambda>c. c \<noteq> CHR '':'') line)))
      else None)"

definition spec_meeting_details :: "string \<Rightarrow> (string \<rightharpoonup> string)" where
  "spec_meeting_details text =
     map_of (rev (List.map_filter spec_line_pair (py_split newline (strip text))))"

definition meeting_example :: string where
  "meeting_example =
     ''Date: 2024-05-01'' @ [newline] @ ''Time: 14:00'' @ [newline] @
     ''BadLineNoColon'' @ [newline] @ ''Duration: 45''"

section \<open>Record store (modules/memory\_manager.py)\<close>

text \<open>
  The three tables are lists of rows in insertion order. A timestamp is a number of
  seconds; \<open>now\<close> stands for \<open>datetime.now()\<close>. The dictionaries passed to the
  \<open>save_*\<close> functions are records; a key read with \<open>.get(key, default)\<close> is an
  optional field.
\<close>

record email =
  e_id :: string
  e_sender :: string
  e_recipient :: string
  e_subject :: string
  e_body :: string
  e_timestamp :: int
  e_thread_id :: string
  e_has_attachment :: bool

record attachment =
  a_id :: string
  a_email_id :: string
  a_filename :: string
  a_content_type :: string
  a_size :: nat
  a_data :: string

record response =
  r_id :: string
  r_email_id :: string
  r_content :: string
  r_timestamp :: int
  r_sent :: bool

record email_data =
  d_id :: string
  d_sender :: string
  d_recipient :: string
  d_subject :: string
  d_body :: string
  d_timestamp :: "int option"
  d_thread_id :: string
  d_has_attachment :: "bool option"
  d_attachments :: "attachment list"

record response_data =
  rd_id :: string
  rd_email_id :: string
  rd_content :: string
  rd_timestamp :: "int option"
  rd_sent :: "bool option"

record database =
  emails :: "email list"
  attachments :: "attachment list"
  responses :: "response list"

definition get_email_by_id :: "string \<Rightarrow> database \<Rightarrow> email option" where
  "get_email_by_id email_id db = find (\<lambda>e. e_id e = email_id) (emails db)"

text \<open>
  \<open>query.filter(thread_id == t).order_by(Email.timestamp).all()\<close>: the rows of the thread
  in ascending timestamp order (rows with equal timestamps in the order a stable sort
  leaves them; the engine promises no order among them).
\<close>

definition get_emails_by_thread :: "string \<Rightarrow> database \<Rightarrow> email list" where
  "get_emails_by_thread thread_id db =
     sort_key e_timestamp (filter (\<lambda>e. e_thread_id e = thread_id) (emails db))"

text \<open>The \<open>Email(...)\<close> object that \<open>save_email\<close> builds from the dictionary.\<close>

definition new_email :: "int \<Rightarrow> email_data \<Rightarrow> email" where
  "new_email now email_data =
     \<lparr>e_id = d_id email_data,
      e_sender = d_sender email_data,
      e_recipient = d_recipient email_data,
      e_subject = d_subject email_data,
      e_body = d_body email_data,
      e_timestamp = (case d_timestamp email_data of Some t \<Rightarrow> t | None \<Rightarrow> now),
      e_thread_id = d_thread_id email_data,
      e_has_attachment = (case d_has_attachment email_data of Some b \<Rightarrow> b | None \<Rightarrow> False)\<rparr>"

text \<open>
  \<open>save_email\<close> adds the new object to a fresh session and commits. A new object is
  written with an INSERT; \<open>id\<close> is the primary key of the table, so the engine rejects
  the INSERT of an id that is already stored, the commit raises IntegrityError,
  \<open>finally\<close> closes the session and the table is as before. The result pairs what the
  call returns or raises with the database afterwards.
\<close>

definition save_email :: "int \<Rightarrow> email_data \<Rightarrow> database \<Rightarrow> (error + email) \<times> database" where
  "save_email now email_data db =
     (let email = new_email now email_data
      in if e_id email \<in> set (map e_id (emails db)) then (Inl IntegrityError, db)
         else (Inr email, db\<lparr>emails := emails db @ [email]\<rparr>))"

text \<open>The store after saving a sequence of emails one after the other, whatever each call returns.\<close>

definition save_all :: "int \<Rightarrow> email_data list \<Rightarrow> database \<Rightarrow> database" where
  "save_all now es db = fold (\<lambda>email_data db. snd (save_email now email_data db)) es db"

definition empty_db :: database where
  "empty_db = \<lparr>emails = [], attachments = [], responses = []\<rparr>"

text \<open>
  \<open>save_attachment\<close>, the same way. \<open>size\<close> is an Integer column: the engine holds
  64-bit signed integers, and binding a larger one raises OverflowError before the INSERT
  is tried.
\<close>

definition save_attachment :: "attachment \<Rightarrow> database \<Rightarrow> (error + attachment) \<times> database" where
  "save_attachment attachment_data db =
     (if 2 ^ 63 \<le> a_size attachment_data then (Inl OverflowError, db)
      else if a_id attachment_data \<in> set (map a_id (attachments db)) then (Inl IntegrityError, db)
      else (Inr attachment_data, db\<lparr>attachments := attachments db @ [attachment_data]\<rparr>))"

definition save_response :: "int \<Rightarrow> response_data \<Rightarrow> database \<Rightarrow> (error + response) \<times> database" where
  "save_response now response_data db =
     (let response = \<lparr>r_id = rd_id response_data,
                        r_email_id = rd_email_id response_data,
                        r_content = rd_content response_data,
                        r_timestamp = (case rd_timestamp response_data of Some t \<Rightarrow> t | None \<Rightarrow> now),
                        r_sent = (case rd_sent response_data of Some b \<Rightarrow> b | None \<Rightarrow> False)\<rparr>
      in if r_id response \<in> set (map r_id (responses db)) then (Inl IntegrityError, db)
         else (Inr response, db\<lparr>responses := responses db @ [response]\<rparr>))"

section \<open>Mail (modules/email\_integration.py)\<close>

subsection \<open>Ingest\<close>

text \<open>
  \<open>GmailIntegration.get_emails\<close>: \<open>messages\<close> are the ids the provider lists,
  \<open>parse_email\<close> stands for \<open>self._parse_email\<close> (None where it returns None).
  Nothing catches what \<open>save_email\<close> or \<open>save_attachment\<close> raises.
\<close>

fun save_attachments :: "attachment list \<Rightarrow> database \<Rightarrow> (error + unit) \<times> database" where
  "save_attachments [] db = (Inr (), db)"
| "save_attachments (attachment # rest) db =
     (case save_attachment attachment db of
        (Inl e, db') \<Rightarrow> (Inl e, db')
      | (Inr _, db') \<Rightarrow> save_attachments rest db')"

fun get_emails_loop ::
  "(string \<Rightarrow> email_data option) \<Rightarrow> int \<Rightarrow> string list \<Rightarrow> email_data list \<Rightarrow> database
     \<Rightarrow> (error + email_data list) \<times> database" where
  "get_emails_loop parse_email now [] emails_acc db = (Inr emails_acc, db)"
| "get_emails_loop parse_email now (message # rest) emails_acc db =
     (case parse_email message of
        None \<Rightarrow> get_emails_loop parse_email now rest emails_acc db
      | Some email_data \<Rightarrow>
          (case save_email now email_data db of
             (Inl e, db') \<Rightarrow> (Inl e, db')
           | (Inr _, db') \<Rightarrow>
               (case save_attachments (d_attachments email_data) db' of
                  (Inl e, db'') \<Rightarrow> (Inl e, db'')
                | (Inr _, db'') \<Rightarrow>
                    get_emails_loop parse_email now rest (emails_acc @ [email_data]) db'')))"

definition get_emails ::
  "(string \<Rightarrow> email_data option) \<Rightarrow> int \<Rightarrow> string list \<Rightarrow> database
     \<Rightarrow> (error + email_data list) \<times> database" where
  "get_emails parse_email now messages db = get_emails_loop parse_email now messages [] db"

subsection \<open>Body extraction\<close>








subsection \<open>Sending\<close>

text \<open>
  A message under construction is its header list, in the order the headers were set,
  and the bodies attached. \<open>message[name] = value\<close> on an \<open>email.message.Message\<close>
  appends a header; it does not replace one of the same name. \<open>MIMEMultipart()\<close> starts
  with its two own headers.
\<close>

record mime_message =
  m_headers :: "(string \<times> string) list"
  m_attached :: "string list"

definition MIMEMultipart :: mime_message where
  "MIMEMultipart =
     \<lparr>m_headers = [(''Content-Type'', ''multipart/mixed''), (''MIME-Version'', ''1.0'')],
      m_attached = []\<rparr>"

definition set_header :: "string \<Rightarrow> string \<Rightarrow> mime_message \<Rightarrow> mime_message" where
  "set_header name v message = message\<lparr>m_headers := m_headers message @ [(name, v)]\<rparr>"

definition attach :: "string \<Rightarrow> mime_message \<Rightarrow> mime_message" where
  "attach text message = message\<lparr>m_attached := m_attached message @ [text]\<rparr>"

text \<open>All values of the headers set under a name, in order.\<close>

definition get_all :: "string \<Rightarrow> mime_message \<Rightarrow> string list" where
  "get_all name message = map snd (filter (\<lambda>h. fst h = name) (m_headers message))"

text \<open>
  The mail provider: \<open>messages_get\<close> returns the header list of a stored message
  (\<open>original_message['payload']['headers']\<close>), None where the call or the lookup raises;
  \<open>messages_send\<close> is True where encoding and sending the message go through.
\<close>

record gmail_service =
  messages_get :: "string \<Rightarrow> (string \<times> string) list option"
  messages_send :: "mime_message \<Rightarrow> bool"

text \<open>
  The reply branch of \<open>send_email\<close>. The dictionary comprehension keeps the last value
  of a repeated header name, hence \<open>map_of (rev hs)\<close>.
\<close>

definition reply_headers :: "(string \<times> string) list \<Rightarrow> string \<Rightarrow> mime_message \<Rightarrow> mime_message" where
  "reply_headers hs subject message =
     (let headers = map_of (rev hs);
          message1 = (case headers ''Message-ID'' of
                        Some mid \<Rightarrow> set_header ''In-Reply-To'' mid message
                      | None \<Rightarrow> message);
          references0 = (case headers ''References'' of Some r \<Rightarrow> r | None \<Rightarrow> []);
          references = (case headers ''Message-ID'' of
                          Some mid \<Rightarrow>
                            (if references0 \<noteq> [] then references0 @ '' '' else references0) @ mid
                        | None \<Rightarrow> references0);
          message2 = (if references \<noteq> [] then set_header ''References'' references message1
                      else message1)
      in if \<not> startswith subject ''Re:'' \<and>
            strip (case headers ''Subject'' of Some s \<Rightarrow> s | None \<Rightarrow> []) \<noteq> []
         then (case headers ''Subject'' of
                 Some s \<Rightarrow> set_header ''subject'' (''Re: '' @ s) message2
               | None \<Rightarrow> message2)
         else message2)"

text \<open>
  \<open>send_email\<close> returns its boolean; the first component is the message as it stood when
  the send call was made (None when an exception came before that).
\<close>

definition send_email ::
  "gmail_service \<Rightarrow> string \<Rightarrow> string \<Rightarrow> string \<Rightarrow> string option \<Rightarrow> mime_message option \<times> bool" where
  "send_email service to subject body_text reply_to_message_id =
     (let message = set_header ''subject'' subject (set_header ''to'' to MIMEMultipart);
          prepared =
            (case reply_to_message_id of
               None \<Rightarrow> Some message
             | Some rid \<Rightarrow>
                 (if rid = [] then Some message
                  else (case messages_get service rid of
                          None \<Rightarrow> None
                        | Some hs \<Rightarrow> Some (reply_headers hs subject message))))
      in case prepared of
           None \<Rightarrow> (None, False)
         | Some message' \<Rightarrow>
             (let final = attach body_text message'
              in (Some final, messages_send service final)))"

section \<open>The Send Response handler (app.py)\<close>

text \<open>
  The running application: the database, and a journal of what has happened, in order.
  Each operation writes its own entry: \<open>save_response\<close> when its commit has gone
  through, \<open>send_email\<close> when it is called, with its arguments and the database as it
  stands at the moment of the call.
\<close>

datatype event =
  Committed response
| Send_email_called string string string "string option" database

record world =
  store :: database
  journal :: "event list"

definition save_response_in :: "int \<Rightarrow> response_data \<Rightarrow> world \<Rightarrow> (error + response) \<times> world" where
  "save_response_in now response_data w =
     (case save_response now response_data (store w) of
        (Inl e, db') \<Rightarrow> (Inl e, w\<lparr>store := db'\<rparr>)
      | (Inr row, db') \<Rightarrow> (Inr row, w\<lparr>store := db', journal := journal w @ [Committed row]\<rparr>))"

definition send_email_in ::
  "gmail_service \<Rightarrow> string \<Rightarrow> string \<Rightarrow> string \<Rightarrow> string option \<Rightarrow> world \<Rightarrow> bool \<times> world" where
  "send_email_in service to subject body_text reply_to_message_id w =
     (snd (send_email service to subject body_text reply_to_message_id),
      w\<lparr>journal := journal w @
                    [Send_email_called to subject body_text reply_to_message_id (store w)]\<rparr>)"

text \<open>
  The handler of the Send Response button, drawn only when a draft is held; \<open>uid\<close>
  stands for \<open>str(uuid.uuid4())\<close>. It calls \<open>save_response\<close> and then
  \<open>gmail.send_email\<close>; an exception of the first ends it. The result is None when nothing
  was done, otherwise what \<open>save_response\<close> raised or the boolean of \<open>send_email\<close>.
\<close>

definition send_response_handler ::
  "gmail_service \<Rightarrow> string \<Rightarrow> int \<Rightarrow> email \<Rightarrow> string \<Rightarrow> string \<Rightarrow> world
     \<Rightarrow> (error + bool) option \<times> world" where
  "send_response_handler gmail uid now email draft_response edited_response w =
     (if draft_response = [] then (None, w)
      else
        (let response_data = \<lparr>rd_id = uid, rd_email_id = e_id email,
                               rd_content = edited_response, rd_timestamp = Some now,
                               rd_sent = Some True\<rparr>
         in case save_response_in now response_data w of
              (Inl e, w') \<Rightarrow> (Some (Inl e), w')
            | (Inr row, w') \<Rightarrow>
                (case send_email_in gmail (e_sender email) (''Re: '' @ e_subject email)
                        edited_response (Some (e_id email)) w' of
                   (sent, w'') \<Rightarrow> (Some (Inr sent), w''))))"

section \<open>Calendar (modules/calendar\_integration.py)\<close>

text \<open>
  A \<open>datetime\<close> has a resolution of one microsecond. It is naive (the wall-clock time
  in microseconds) or aware (the wall-clock time and the offset from UTC, both in
  microseconds). Subtracting a naive from an aware one, or the reverse, raises TypeError;
  otherwise the difference is a number of microseconds.
\<close>

datatype pydatetime = Naive int | Aware int int

fun wall_clock :: "pydatetime \<Rightarrow> int" where
  "wall_clock (Naive s) = s"
| "wall_clock (Aware s off) = s"

fun dt_sub :: "pydatetime \<Rightarrow> pydatetime \<Rightarrow> error + int" where
  "dt_sub (Naive a) (Naive b) = Inr (a - b)"
| "dt_sub (Aware a oa) (Aware b ob) = Inr ((a - oa) - (b - ob))"
| "dt_sub _ _ = Inl TypeError"

definition two_digits :: "int \<Rightarrow> string" where
  "two_digits n = [digit_char (nat (n div 10 mod 10)), digit_char (nat (n mod 10))]"

text \<open>\<open>dt.strftime('%H:%M')\<close>.\<close>

definition strftime_HM :: "pydatetime \<Rightarrow> string" where
  "strftime_HM dt =
     two_digits (wall_clock dt div 1000000 mod 86400 div 3600) @ '':'' @
     two_digits (wall_clock dt div 1000000 mod 3600 div 60)"

text \<open>
  \<open>event['start'].get('dateTime')\<close>, read by \<open>datetime.fromisoformat\<close>: missing or empty,
  not in ISO format (ValueError), or a datetime. An event without the \<open>start\<close> or
  \<open>end\<close> key has None there (KeyError).
\<close>

datatype date_time_field = No_dateTime | Bad_dateTime | DateTime pydatetime

record calendar_event =
  ev_start :: "date_time_field option"
  ev_end :: "date_time_field option"

record slot =
  slot_start :: string
  slot_end :: string

text \<open>
  \<open>strptime_date\<close> is \<open>datetime.strptime(_, '%Y-%m-%d')\<close> as the microseconds at
  midnight of that day, None for ValueError; \<open>events_list\<close> is the provider's answer for
  the window \<open>timeMin\<close>, \<open>timeMax\<close>, None where the call raises.
\<close>

record calendar_service =
  strptime_date :: "string \<Rightarrow> int option"
  events_list :: "int \<Rightarrow> int \<Rightarrow> calendar_event list option"

text \<open>
  \<open>hours h\<close> is \<open>h\<close> o'clock after midnight, in microseconds. The test
  \<open>(start_time - current_time).total_seconds() / 60 >= duration_minutes\<close> divides
  floating-point numbers; it is written here on the integers, as
  \<open>60000000 * duration_minutes \<le> microseconds\<close>, which is the same test as long as
  the two times are less than a century apart.
\<close>

definition hours :: "int \<Rightarrow> int" where
  "hours h = h * 3600 * 1000000"

fun walk_events ::
  "int \<Rightarrow> calendar_event list \<Rightarrow> pydatetime \<Rightarrow> slot list \<Rightarrow> error + (pydatetime \<times> slot list)" where
  "walk_events duration_minutes [] current_time free_slots = Inr (current_time, free_slots)"
| "walk_events duration_minutes (event # rest) current_time free_slots =
     (case ev_start event of
        None \<Rightarrow> Inl KeyError
      | Some No_dateTime \<Rightarrow> walk_events duration_minutes rest current_time free_slots
      | Some Bad_dateTime \<Rightarrow> Inl ValueError
      | Some (DateTime start_time) \<Rightarrow>
          (case dt_sub start_time current_time of
             Inl e \<Rightarrow> Inl e
           | Inr microseconds \<Rightarrow>
               (let free_slots' =
                      (if 60000000 * duration_minutes \<le> microseconds
                       then free_slots @ [\<lparr>slot_start = strftime_HM current_time,
                                            slot_end = strftime_HM start_time\<rparr>]
                       else free_slots)
                in case ev_end event of
                     None \<Rightarrow> Inl KeyError
                   | Some No_dateTime \<Rightarrow> walk_events duration_minutes rest current_time free_slots'
                   | Some Bad_dateTime \<Rightarrow> Inl ValueError
                   | Some (DateTime end_time) \<Rightarrow>
                       walk_events duration_minutes rest end_time free_slots')))"

definition available_slots_body ::
  "calendar_service \<Rightarrow> string \<Rightarrow> int \<Rightarrow> error + slot list" where
  "available_slots_body service date_str duration_minutes =
     (case strptime_date service date_str of
        None \<Rightarrow> Inl ValueError
      | Some midnight \<Rightarrow>
          (let time_min = Naive (midnight + hours 9);
               time_max = Naive (midnight + hours 17)
           in case events_list service (midnight + hours 9) (midnight + hours 17) of
                None \<Rightarrow> Inl ProviderError
              | Some events \<Rightarrow>
                  (case walk_events duration_minutes events time_min [] of
                     Inl e \<Rightarrow> Inl e
                   | Inr (current_time, free_slots) \<Rightarrow>
                       (case dt_sub time_max current_time of
                          Inl e \<Rightarrow> Inl e
                        | Inr microseconds \<Rightarrow>
                            Inr (if 60000000 * duration_minutes \<le> microseconds
                                 then free_slots @ [\<lparr>slot_start = strftime_HM current_time,
                                                      slot_end = strftime_HM time_max\<rparr>]
                                 else free_slots)))))"

text \<open>\<open>get_available_slots\<close>: \<open>except Exception\<close> turns every error into the empty list.\<close>

definition get_available_slots :: "calendar_service \<Rightarrow> string \<Rightarrow> int \<Rightarrow> slot list" where
  "get_available_slots service date_str duration_minutes =
     (case available_slots_body service date_str duration_minutes of
        Inl _ \<Rightarrow> []
      | Inr free_slots \<Rightarrow> free_slots)"

section \<open>Search (modules/search\_integration.py)\<close>

text \<open>
  What \<open>requests.get\<close> gives: the call raises, or there is a response with a status
  code and a body. The body is None where \<open>response.json()\<close> raises; otherwise it is the
  \<open>items\<close> of the decoded object, None without that key. An item is a dictionary from
  field names to strings, as the provider documents it.
\<close>

type_synonym item = "string \<rightharpoonup> string"

datatype http_outcome =
  Raises
| Http_response int "item list option option"

text \<open>\<open>item.get(key, '')\<close>.\<close>

definition get_or_empty :: "item \<Rightarrow> string \<Rightarrow> string" where
  "get_or_empty item key = (case item key of Some v \<Rightarrow> v | None \<Rightarrow> [])"

fun collect_results :: "item list \<Rightarrow> item list \<Rightarrow> item list" where
  "collect_results [] search_results = search_results"
| "collect_results (item # rest) search_results =
     collect_results rest
       (search_results @
          [[''title'' \<mapsto> get_or_empty item ''title'',
            ''link'' \<mapsto> get_or_empty item ''link'',
            ''snippet'' \<mapsto> get_or_empty item ''snippet'']])"

text \<open>
  The body of \<open>search\<close> inside its \<open>try\<close>; \<open>provider query num\<close> is the request with
  \<open>q = query\<close> and \<open>num = min(num_results, 10)\<close>.
\<close>

definition search_body :: "(string \<Rightarrow> int \<Rightarrow> http_outcome) \<Rightarrow> string \<Rightarrow> int \<Rightarrow> error + item list" where
  "search_body provider query num_results =
     (case provider query (min num_results 10) of
        Raises \<Rightarrow> Inl ProviderError
      | Http_response status_code json \<Rightarrow>
          (if status_code \<noteq> 200 then Inr []
           else (case json of
                   None \<Rightarrow> Inl ValueError
                 | Some None \<Rightarrow> Inr []
                 | Some (Some items) \<Rightarrow> Inr (collect_results items []))))"

definition search :: "(string \<Rightarrow> int \<Rightarrow> http_outcome) \<Rightarrow> string \<Rightarrow> int \<Rightarrow> item list" where
  "search provider query num_results =
     (case search_body provider query num_results of
        Inl _ \<Rightarrow> []
      | Inr search_results \<Rightarrow> search_results)"

text \<open>\<open>str(i)\<close> for the numbering of \<open>enumerate(results, 1)\<close>.\<close>

function str_nat :: "nat \<Rightarrow> string" where
  "str_nat n =
     (if n < 10 then [digit_char n] else str_nat (n div 10) @ [digit_char (n mod 10)])"
  by pat_completeness auto
termination
  by (relation "measure id") auto

text \<open>\<open>result[key]\<close>: KeyError without the key.\<close>

definition getitem :: "item \<Rightarrow> string \<Rightarrow> error + string" where
  "getitem result key = (case result key of None \<Rightarrow> Inl KeyError | Some v \<Rightarrow> Inr v)"

fun format_loop :: "nat \<Rightarrow> item list \<Rightarrow> string \<Rightarrow> error + string" where
  "format_loop i [] formatted_text = Inr formatted_text"
| "format_loop i (result # rest) formatted_text =
     (case getitem result ''title'' of
        Inl e \<Rightarrow> Inl e
      | Inr title \<Rightarrow>
          (case getitem result ''link'' of
             Inl e \<Rightarrow> Inl e
           | Inr link \<Rightarrow>
               (case getitem result ''snippet'' of
                  Inl e \<Rightarrow> Inl e
                | Inr snippet \<Rightarrow>
                    format_loop (Suc i) rest
                      (formatted_text @ str_nat i @ ''. '' @ title @ [newline] @
                       ''   URL: '' @ link @ [newline] @
                       ''   '' @ snippet @ [newline, newline]))))"

definition format_results_for_llm :: "item list \<Rightarrow> error + string" where
  "format_results_for_llm results =
     (if results = [] then Inr ''No search results found.''
      else format_loop 1 results (''Search Results:'' @ [newline, newline]))"

definition search_and_format :: "(string \<Rightarrow> int \<Rightarrow> http_outcome) \<Rightarrow> string \<Rightarrow> int \<Rightarrow> error + string" where
  "search_and_format provider query num_results =
     format_results_for_llm (search provider query num_results)"

section \<open>Body extraction as a search for the first textual content\<close>





section \<open>Example inputs\<close>

definition first_mail :: email_data where
  "first_mail = \<lparr>d_id = ''m1'', d_sender = ''ann@example.org'', d_recipient = ''me@example.org'',
     d_subject = ''Budget'', d_body = ''Numbers attached'', d_timestamp = Some 200,
     d_thread_id = ''t1'', d_has_attachment = Some False, d_attachments = []\<rparr>"

text \<open>The same provider message id as \<open>first_mail\<close>, fetched again with another body.\<close>

definition first_mail_again :: email_data where
  "first_mail_again = first_mail\<lparr>d_body := ''Numbers attached (edited)''\<rparr>"

definition second_mail :: email_data where
  "second_mail = \<lparr>d_id = ''m2'', d_sender = ''bob@example.org'', d_recipient = ''me@example.org'',
     d_subject = ''Re: Budget'', d_body = ''Thanks'', d_timestamp = Some 100,
     d_thread_id = ''t1'', d_has_attachment = None, d_attachments = []\<rparr>"

definition parse_example :: "string \<Rightarrow> email_data option" where
  "parse_example message_id =
     (if message_id = ''m1'' then Some first_mail
      else if message_id = ''m2'' then Some second_mail else None)"

text \<open>A mail provider that stores one message, \<open>m1\<close>, with the given headers, and sends every message.\<close>

definition reply_service :: "(string \<times> string) list \<Rightarrow> gmail_service" where
  "reply_service hs =
     \<lparr>messages_get = (\<lambda>message_id. if message_id = ''m1'' then Some hs else None),
      messages_send = (\<lambda>message. True)\<rparr>"

text \<open>
  A calendar that knows the date 2024-05-01 (midnight at second 1714521600) and answers
  every window with the given events. \<open>meeting_utc\<close> is an event from 10:00 to 10:30 as
  the provider writes it, \<open>2024-05-01T10:00:00Z\<close> to \<open>2024-05-01T10:30:00Z\<close>;
  \<open>meeting_naive\<close> is the same event written without an offset.
\<close>

definition may_first :: int where
  "may_first = 1714521600 * 1000000"

definition calendar_with :: "calendar_event list \<Rightarrow> calendar_service" where
  "calendar_with events =
     \<lparr>strptime_date = (\<lambda>date_str. if date_str = ''2024-05-01'' then Some may_first else None),
      events_list = (\<lambda>time_min time_max. Some events)\<rparr>"

definition meeting_utc :: calendar_event where
  "meeting_utc =
     \<lparr>ev_start = Some (DateTime (Aware (may_first + hours 10) 0)),
      ev_end = Some (DateTime (Aware (may_first + hours 10 + 30 * 60 * 1000000) 0))\<rparr>"

definition meeting_naive :: calendar_event where
  "meeting_naive =
     \<lparr>ev_start = Some (DateTime (Naive (may_first + hours 10))),
      ev_end = Some (DateTime (Naive (may_first + hours 10 + 30 * 60 * 1000000)))\<rparr>"

text \<open>The application with one stored email, \<open>first_mail\<close>, and an empty journal.\<close>

definition one_mail_world :: world where
  "one_mail_world = \<lparr>store = snd (save_email 5 first_mail empty_db), journal = []\<rparr>"







section \<open>Meeting details: the parser\<close>

lemma split_max_zero: "split_max sep 0 acc s = [rev acc @ s]"
  by (induction s arbitrary: acc) auto

lemma split_max_first:
  "sep \<in> set s \<Longrightarrow> split_max sep (Suc 0) acc s =
     [rev acc @ takeWhile (\<lambda>c. c \<noteq> sep) s, tl (dropWhile (\<lambda>c. c \<noteq> sep) s)]"
  by (induction s arbitrary: acc) (auto simp: split_max_zero)

lemma map_add_single: "m ++ map_of [(k, v)] ++ M = m(k \<mapsto> v) ++ M"
  by (rule ext) (simp add: map_add_def split: option.splits)

lemma parse_lines_spec:
  "parse_lines ls m = Inr (m ++ map_of (rev (List.map_filter spec_line_pair ls)))"
proof (induction ls arbitrary: m)
  case Nil
  show ?case by (simp add: List.map_filter_simps)
next
  case (Cons l ls)
  show ?case
  proof (cases "CHR '':'' \<in> set l")
    case True
    define k where "k = strip (takeWhile (\<lambda>c. c \<noteq> CHR '':'') l)"
    define v where "v = strip (tl (dropWhile (\<lambda>c. c \<noteq> CHR '':'') l))"
    have pair: "spec_line_pair l = Some (k, v)"
      using True by (simp add: spec_line_pair_def k_def v_def)
    have step: "parse_lines (l # ls) m = parse_lines ls (m(k \<mapsto> v))"
      using True split_max_first[OF True, of "[]"] by (simp add: k_def v_def)
    have mp: "map_of (rev (List.map_filter spec_line_pair (l # ls))) =
          map_of [(k, v)] ++ map_of (rev (List.map_filter spec_line_pair ls))"
      using pair by (simp add: List.map_filter_simps del: map_of.simps)
    show ?thesis
      by (simp only: step Cons.IH mp map_add_assoc map_add_single)
  next
    case False
    then show ?thesis
      using Cons.IH by (simp add: List.map_filter_simps spec_line_pair_def)
  qed
qed

lemma meeting_example_parsed:
  "extract_meeting_details meeting_example =
     Inr [''Date'' \<mapsto> ''2024-05-01'', ''Time'' \<mapsto> ''14:00'', ''Duration'' \<mapsto> ''45'']"
  by (simp add: extract_meeting_details_def meeting_example_def py_split_def strip_def
      py_isspace_def)

text \<open>
  C7. For every generated text the parser raises nothing and returns the dictionary the
  specification describes: each line with a colon is cut at its first colon into a
  stripped key and a stripped value, a line without a colon contributes nothing, keys are
  not checked against a schema, and a repeated key keeps its last value. The text
  \<open>Date: 2024-05-01\n Time: 14:00\n BadLineNoColon\n Duration: 45\<close> (one line each)
  parses to exactly the three entries Date, Time and Duration.
\<close>

theorem extract_meeting_details_correct:
  "extract_meeting_details result = Inr (spec_meeting_details result) \<and>
   extract_meeting_details meeting_example =
     Inr [''Date'' \<mapsto> ''2024-05-01'', ''Time'' \<mapsto> ''14:00'', ''Duration'' \<mapsto> ''45'']"
  using meeting_example_parsed
  by (simp add: extract_meeting_details_def spec_meeting_details_def parse_lines_spec)

section \<open>Search: failures and the shape of the results\<close>

lemma collect_results_map:
  "collect_results items acc =
     acc @ map (\<lambda>item. [''title'' \<mapsto> get_or_empty item ''title'',
                         ''link'' \<mapsto> get_or_empty item ''link'',
                         ''snippet'' \<mapsto> get_or_empty item ''snippet'']) items"
  by (induction items arbitrary: acc) simp_all

lemma search_cases:
  "search provider query num_results = [] \<or>
   (\<exists>items. provider query (min num_results 10) = Http_response 200 (Some (Some items)) \<and>
            search provider query num_results = collect_results items [])"
  by (simp add: search_def search_body_def split: http_outcome.splits option.splits)

text \<open>
  C8. When the provider call raises or answers with a status other than 200, \<open>search\<close>
  returns the empty list (it has no way to raise: its result is a list in every case),
  formatting the empty list gives the text "No search results found.", and so
  \<open>search_and_format\<close> returns that text.
\<close>

theorem search_failure_isolated:
  assumes "provider query (min num_results 10) = Raises \<or>
           (\<exists>status_code json. provider query (min num_results 10) = Http_response status_code json \<and>
                                status_code \<noteq> 200)"
  shows "search provider query num_results = [] \<and>
         format_results_for_llm [] = Inr ''No search results found.'' \<and>
         search_and_format provider query num_results = Inr ''No search results found.''"
  using assms
  by (auto simp: search_def search_body_def search_and_format_def format_results_for_llm_def)

theorem search_failure_isolated_witness:
  "search (\<lambda>q n. Http_response 503 None) ''budget'' 3 = [] \<and>
   search (\<lambda>q n. Raises) ''budget'' 3 = [] \<and>
   search_and_format (\<lambda>q n. Http_response 503 None) ''budget'' 3 = Inr ''No search results found.'' \<and>
   search_and_format (\<lambda>q n. Raises) ''budget'' 3 = Inr ''No search results found.''"
  using search_failure_isolated [of "\<lambda>q n. Http_response 503 None" "''budget''" 3]
        search_failure_isolated [of "\<lambda>q n. Raises" "''budget''" 3]
  by simp

text \<open>
  C10. Every element of the list \<open>search\<close> returns has exactly the keys title, link and
  snippet; when the list is not empty it has one element per item of the provider's
  answer, in the provider's order, and each key holds the item's string for that field,
  or the empty string where the item lacks the field.
\<close>

theorem search_result_shape:
  "(\<forall>result \<in> set (search provider query num_results).
      dom result = {''title'', ''link'', ''snippet''}) \<and>
   (search provider query num_results = [] \<or>
    (\<exists>items. provider query (min num_results 10) = Http_response 200 (Some (Some items)) \<and>
       length (search provider query num_results) = length items \<and>
       (\<forall>i < length items. \<forall>key \<in> {''title'', ''link'', ''snippet''}.
          (search provider query num_results ! i) key =
            Some (case (items ! i) key of Some v \<Rightarrow> v | None \<Rightarrow> []))))"
proof -
  consider (empty) "search provider query num_results = []"
    | (items) items where
        "provider query (min num_results 10) = Http_response 200 (Some (Some items))"
        "search provider query num_results = collect_results items []"
    using search_cases by blast
  then show ?thesis
  proof cases
    case empty
    then show ?thesis by simp
  next
    case items
    have shape: "\<forall>result \<in> set (collect_results items []).
                   dom result = {''title'', ''link'', ''snippet''}"
      by (auto simp: collect_results_map)
    have entries: "\<forall>i < length items. \<forall>key \<in> {''title'', ''link'', ''snippet''}.
          (collect_results items [] ! i) key =
            Some (case (items ! i) key of Some v \<Rightarrow> v | None \<Rightarrow> [])"
      by (simp add: collect_results_map get_or_empty_def)
    have len: "length (collect_results items []) = length items"
      by (simp add: collect_results_map)
    show ?thesis
    proof (intro conjI disjI2 exI[of _ items])
      show "\<forall>result \<in> set (search provider query num_results).
              dom result = {''title'', ''link'', ''snippet''}"
        using shape by (simp only: items(2))
      show "provider query (min num_results 10) = Http_response 200 (Some (Some items))"
        by (rule items(1))
      show "length (search provider query num_results) = length items"
        using len by (simp only: items(2))
      show "\<forall>i < length items. \<forall>key \<in> {''title'', ''link'', ''snippet''}.
          (search provider query num_results ! i) key =
            Some (case (items ! i) key of Some v \<Rightarrow> v | None \<Rightarrow> [])"
        using entries by (simp only: items(2))
    qed
  qed
qed

theorem search_result_shape_witness:
  "length (search (\<lambda>q n. Http_response 200
             (Some (Some [[''title'' \<mapsto> ''T1'', ''link'' \<mapsto> ''L1''], [''snippet'' \<mapsto> ''S2'']])))
          ''budget'' 3) = 2 \<and>
   dom (search (\<lambda>q n. Http_response 200
             (Some (Some [[''title'' \<mapsto> ''T1'', ''link'' \<mapsto> ''L1''], [''snippet'' \<mapsto> ''S2'']])))
          ''budget'' 3 ! 0) = {''title'', ''link'', ''snippet''} \<and>
   (search (\<lambda>q n. Http_response 200
             (Some (Some [[''title'' \<mapsto> ''T1'', ''link'' \<mapsto> ''L1''], [''snippet'' \<mapsto> ''S2'']])))
          ''budget'' 3 ! 1) ''title'' = Some []"
proof -
  define provider :: "string \<Rightarrow> int \<Rightarrow> http_outcome" where
    "provider = (\<lambda>q n. Http_response 200
       (Some (Some [[''title'' \<mapsto> ''T1'', ''link'' \<mapsto> ''L1''], [''snippet'' \<mapsto> ''S2'']])))"
  have ans: "provider ''budget'' (min 3 10) =
      Http_response 200 (Some (Some [[''title'' \<mapsto> ''T1'', ''link'' \<mapsto> ''L1''], [''snippet'' \<mapsto> ''S2'']]))"
    by (simp add: provider_def)
  have ne: "search provider ''budget'' 3 \<noteq> []"
    by (simp add: search_def search_body_def provider_def)
  note shape = search_result_shape [of provider "''budget''" 3]
  have all_dom: "\<forall>result \<in> set (search provider ''budget'' 3).
                   dom result = {''title'', ''link'', ''snippet''}"
    using shape by (rule conjunct1)
  from conjunct2 [OF shape] ne
  have ex: "\<exists>items. provider ''budget'' (min 3 10) = Http_response 200 (Some (Some items)) \<and>
       length (search provider ''budget'' 3) = length items \<and>
       (\<forall>i < length items. \<forall>key \<in> {''title'', ''link'', ''snippet''}.
          (search provider ''budget'' 3 ! i) key =
            Some (case (items ! i) key of Some v \<Rightarrow> v | None \<Rightarrow> []))"
    by (elim disjE) (simp, assumption)
  from ex ans have len: "length (search provider ''budget'' 3) = 2"
    and second: "(search provider ''budget'' 3 ! 1) ''title'' = Some []"
    by auto
  from len have "search provider ''budget'' 3 ! 0 \<in> set (search provider ''budget'' 3)"
    by simp
  with all_dom have "dom (search provider ''budget'' 3 ! 0) = {''title'', ''link'', ''snippet''}"
    by (rule bspec)
  with len second show ?thesis
    unfolding provider_def by (intro conjI)
qed

section \<open>Record store: saving under a stored id, and thread order\<close>

lemma save_email_fresh:
  "d_id d \<notin> set (map e_id (emails db)) \<Longrightarrow>
     save_email now d db = (Inr (new_email now d), db\<lparr>emails := emails db @ [new_email now d]\<rparr>)"
  by (simp add: save_email_def new_email_def Let_def)

lemma save_email_stored:
  "d_id d \<in> set (map e_id (emails db)) \<Longrightarrow> save_email now d db = (Inl IntegrityError, db)"
  by (simp add: save_email_def new_email_def Let_def)

lemma new_email_id [simp]: "e_id (new_email now d) = d_id d"
  by (simp add: new_email_def)

lemma new_email_thread [simp]: "e_thread_id (new_email now d) = d_thread_id d"
  by (simp add: new_email_def)

lemma save_email_keeps_distinct:
  "distinct (map e_id (emails db)) \<Longrightarrow> distinct (map e_id (emails (snd (save_email now d db))))"
  by (cases "d_id d \<in> set (map e_id (emails db))")
     (simp_all add: save_email_fresh save_email_stored)

lemma save_email_stores_id:
  "d_id d \<in> set (map e_id (emails (snd (save_email now d db))))"
  by (cases "d_id d \<in> set (map e_id (emails db))")
     (simp_all add: save_email_fresh save_email_stored)

lemma distinct_one_row:
  "distinct (map e_id rows) \<Longrightarrow> k \<in> set (map e_id rows) \<Longrightarrow>
     length (filter (\<lambda>e. e_id e = k) rows) = 1"
proof (induction rows)
  case Nil
  then show ?case by simp
next
  case (Cons r rows)
  show ?case
  proof (cases "e_id r = k")
    case True
    with Cons.prems have "k \<notin> e_id ` set rows" by auto
    then have "filter (\<lambda>e. e_id e = k) rows = []"
      by (auto simp: filter_empty_conv)
    with True show ?thesis by simp
  next
    case False
    with Cons show ?thesis by auto
  qed
qed

text \<open>
  C1, as the code has it. In a table whose ids are distinct (the primary key), saving a
  record and then saving a record with the same id again makes the second call raise
  IntegrityError and leave the database as the first call left it; exactly one row
  carries the id afterwards. When the id was not stored before, the first call returns
  the new row and appends it, and it is this row that stays: the second save neither
  duplicates nor replaces it.
\<close>

theorem save_email_same_id_twice:
  assumes "distinct (map e_id (emails db))" and "d_id d' = d_id d"
  shows "fst (save_email now' d' (snd (save_email now d db))) = Inl IntegrityError \<and>
         snd (save_email now' d' (snd (save_email now d db))) = snd (save_email now d db) \<and>
         length (filter (\<lambda>e. e_id e = d_id d) (emails (snd (save_email now d db)))) = 1 \<and>
         (d_id d \<notin> set (map e_id (emails db)) \<longrightarrow>
            fst (save_email now d db) = Inr (new_email now d) \<and>
            emails (snd (save_email now d db)) = emails db @ [new_email now d])"
proof -
  let ?db1 = "snd (save_email now d db)"
  have stored: "d_id d' \<in> set (map e_id (emails ?db1))"
    using save_email_stores_id [of d now db] assms(2) by simp
  have second: "save_email now' d' ?db1 = (Inl IntegrityError, ?db1)"
    using stored by (rule save_email_stored)
  have one: "length (filter (\<lambda>e. e_id e = d_id d) (emails ?db1)) = 1"
    using save_email_keeps_distinct [OF assms(1)] save_email_stores_id
    by (rule distinct_one_row)
  show ?thesis
    using second one by (simp add: save_email_fresh)
qed

theorem save_email_same_id_twice_witness:
  "fst (save_email 7 first_mail_again (snd (save_email 5 first_mail empty_db))) = Inl IntegrityError \<and>
   emails (snd (save_email 7 first_mail_again (snd (save_email 5 first_mail empty_db)))) =
     [new_email 5 first_mail]"
  using save_email_same_id_twice [of empty_db first_mail_again first_mail 7 5]
  by (simp add: empty_db_def first_mail_again_def first_mail_def)

text \<open>
  C1 as stated fails: the second save of the same id raises IntegrityError instead of
  replacing the row, the stored body stays the first one, and a second run of
  \<open>get_emails\<close> over the same message ids stops with that error.
\<close>

theorem save_email_upsert_counterexample:
  "fst (save_email 7 first_mail_again (snd (save_email 5 first_mail empty_db))) = Inl IntegrityError \<and>
   map e_body (emails (snd (save_email 7 first_mail_again (snd (save_email 5 first_mail empty_db))))) =
     [''Numbers attached''] \<and>
   fst (get_emails parse_example 7 [''m1'', ''m2'']
          (snd (get_emails parse_example 5 [''m1'', ''m2''] empty_db))) = Inl IntegrityError"
  by (simp add: save_email_def new_email_def get_emails_def parse_example_def empty_db_def
      first_mail_again_def first_mail_def second_mail_def Let_def)

lemma save_all_emails:
  "distinct (map d_id es) \<Longrightarrow> set (map d_id es) \<inter> set (map e_id (emails db)) = {} \<Longrightarrow>
     emails (save_all now es db) = emails db @ map (new_email now) es"
proof (induction es arbitrary: db)
  case Nil
  then show ?case by (simp add: save_all_def)
next
  case (Cons d es)
  from Cons.prems have fresh: "d_id d \<notin> set (map e_id (emails db))" by auto
  let ?db1 = "db\<lparr>emails := emails db @ [new_email now d]\<rparr>"
  have step: "save_all now (d # es) db = save_all now es ?db1"
    by (simp add: save_all_def save_email_fresh [OF fresh])
  have "set (map d_id es) \<inter> set (map e_id (emails ?db1)) = {}"
    using Cons.prems by auto
  with Cons.prems have "emails (save_all now es ?db1) = emails ?db1 @ map (new_email now) es"
    by (intro Cons.IH) simp_all
  with step show ?case by simp
qed

lemma thread_rows:
  "emails db = map (new_email now) es \<Longrightarrow>
     mset (get_emails_by_thread t db) =
       image_mset (new_email now) (filter_mset (\<lambda>d. d_thread_id d = t) (mset es))"
  by (simp add: get_emails_by_thread_def filter_map comp_def flip: mset_filter)

lemma thread_sorted: "sorted (map e_timestamp (get_emails_by_thread t db))"
  by (simp add: get_emails_by_thread_def)

text \<open>
  C9. Whatever the order in which a set of emails (with distinct ids) was saved into the
  empty store, \<open>get_emails_by_thread\<close> returns the emails of the thread, each once, in
  ascending order of their timestamps; the sequence of timestamps it returns is the same
  for every order of insertion.
\<close>

theorem get_emails_by_thread_sorted:
  assumes "distinct (map d_id es)" and "mset es' = mset es"
  shows "sorted (map e_timestamp (get_emails_by_thread t (save_all now es' empty_db))) \<and>
         mset (get_emails_by_thread t (save_all now es' empty_db)) =
           mset (map (new_email now) (filter (\<lambda>d. d_thread_id d = t) es)) \<and>
         map e_timestamp (get_emails_by_thread t (save_all now es' empty_db)) =
           map e_timestamp (get_emails_by_thread t (save_all now es empty_db))"
proof -
  let ?db = "save_all now es empty_db" and ?db' = "save_all now es' empty_db"
  have "mset (map d_id es') = mset (map d_id es)"
    using assms(2) by simp
  then have dist': "distinct (map d_id es')"
    using assms(1) mset_eq_imp_distinct_iff by blast
  have rows: "emails ?db = map (new_email now) es"
    using save_all_emails [OF assms(1), of empty_db now] by (simp add: empty_db_def)
  have rows': "emails ?db' = map (new_email now) es'"
    using save_all_emails [OF dist', of empty_db now] by (simp add: empty_db_def)
  have same: "mset (get_emails_by_thread t ?db') = mset (get_emails_by_thread t ?db)"
    by (simp only: thread_rows [OF rows] thread_rows [OF rows'] assms(2))
  have content: "mset (get_emails_by_thread t ?db') =
      mset (map (new_email now) (filter (\<lambda>d. d_thread_id d = t) es))"
    by (simp add: thread_rows [OF rows'] assms(2))
  have "mset (map e_timestamp (get_emails_by_thread t ?db')) =
        mset (map e_timestamp (get_emails_by_thread t ?db))"
    using same by (metis mset_map)
  then have "sort (map e_timestamp (get_emails_by_thread t ?db)) =
             map e_timestamp (get_emails_by_thread t ?db')"
    using thread_sorted by (rule properties_for_sort)
  moreover have "sort (map e_timestamp (get_emails_by_thread t ?db)) =
                 map e_timestamp (get_emails_by_thread t ?db)"
    using thread_sorted by (simp add: sort_key_id_if_sorted)
  ultimately show ?thesis
    using thread_sorted content by simp
qed

theorem get_emails_by_thread_sorted_witness:
  "map e_timestamp (get_emails_by_thread ''t1'' (save_all 5 [first_mail, second_mail] empty_db)) =
     [100, 200] \<and>
   map e_timestamp (get_emails_by_thread ''t1'' (save_all 5 [second_mail, first_mail] empty_db)) =
     [100, 200]"
proof -
  have d: "distinct (map d_id [second_mail, first_mail])"
    by (simp add: first_mail_def second_mail_def)
  have m: "mset [first_mail, second_mail] = mset [second_mail, first_mail]"
    by (simp add: add.commute)
  have "map e_timestamp (get_emails_by_thread ''t1'' (save_all 5 [second_mail, first_mail] empty_db)) =
     [100, 200]"
    by (simp add: get_emails_by_thread_def save_all_def save_email_def new_email_def empty_db_def
        first_mail_def second_mail_def Let_def)
  then show ?thesis
    using get_emails_by_thread_sorted [OF d m, of "''t1''" 5] by simp
qed

section \<open>Sending: the headers of a reply\<close>

lemma get_all_set_header:
  "get_all name (set_header name' v message) =
     get_all name message @ (if name' = name then [v] else [])"
  by (simp add: get_all_def set_header_def)

lemma get_all_attach: "get_all name (attach text message) = get_all name message"
  by (simp add: get_all_def attach_def)

lemma get_all_fresh:
  "name \<noteq> ''Content-Type'' \<Longrightarrow> name \<noteq> ''MIME-Version'' \<Longrightarrow> get_all name MIMEMultipart = []"
  by (auto simp: get_all_def MIMEMultipart_def)

lemma send_email_reply:
  "rid \<noteq> [] \<Longrightarrow> messages_get service rid = Some hs \<Longrightarrow>
     fst (send_email service to subject body_text (Some rid)) =
       Some (attach body_text
               (reply_headers hs subject
                  (set_header ''subject'' subject (set_header ''to'' to MIMEMultipart))))"
  by (simp add: send_email_def Let_def)

text \<open>
  Where the provider returns the original's headers with one named exactly
  \<open>Message-ID\<close>, holding \<open>M\<close>, and References \<open>R\<close> (empty when absent), the message
  built has the single In-Reply-To header \<open>M\<close> and the single References header \<open>R\<close>,
  a space, \<open>M\<close>, or just \<open>M\<close> when \<open>R\<close> is empty.
\<close>

lemma reply_threading_exact_name:
  assumes "rid \<noteq> []"
    and "messages_get service rid = Some hs"
    and "map_of (rev hs) ''Message-ID'' = Some M"
    and "R = (case map_of (rev hs) ''References'' of Some r \<Rightarrow> r | None \<Rightarrow> [])"
  shows "\<exists>message. fst (send_email service to subject body_text (Some rid)) = Some message \<and>
           get_all ''In-Reply-To'' message = [M] \<and>
           (M \<noteq> [] \<or> R \<noteq> [] \<longrightarrow>
              get_all ''References'' message = [if R = [] then M else R @ '' '' @ M])"
proof -
  let ?m0 = "set_header ''subject'' subject (set_header ''to'' to MIMEMultipart)"
  let ?m = "attach body_text (reply_headers hs subject ?m0)"
  have built: "fst (send_email service to subject body_text (Some rid)) = Some ?m"
    using assms(1,2) by (rule send_email_reply)
  have irt: "get_all ''In-Reply-To'' ?m = [M]"
    using assms(3)
    by (simp add: reply_headers_def Let_def get_all_attach get_all_set_header get_all_fresh
        split: option.splits)
  have refs: "M \<noteq> [] \<or> R \<noteq> [] \<longrightarrow>
      get_all ''References'' ?m = [if R = [] then M else R @ '' '' @ M]"
    using assms(3,4)
    by (auto simp: reply_headers_def Let_def get_all_attach get_all_set_header get_all_fresh
        split: option.splits)
  show ?thesis
    using built irt refs by blast
qed

text \<open>
  Where no header of the original is named exactly \<open>Message-ID\<close>, the message built has
  no In-Reply-To header, and its References are those of the original, nothing appended.
\<close>

lemma reply_threading_no_exact_name:
  assumes "rid \<noteq> []"
    and "messages_get service rid = Some hs"
    and "map_of (rev hs) ''Message-ID'' = None"
    and "R = (case map_of (rev hs) ''References'' of Some r \<Rightarrow> r | None \<Rightarrow> [])"
  shows "\<exists>message. fst (send_email service to subject body_text (Some rid)) = Some message \<and>
           get_all ''In-Reply-To'' message = [] \<and>
           get_all ''References'' message = (if R = [] then [] else [R])"
proof -
  let ?m0 = "set_header ''subject'' subject (set_header ''to'' to MIMEMultipart)"
  let ?m = "attach body_text (reply_headers hs subject ?m0)"
  have built: "fst (send_email service to subject body_text (Some rid)) = Some ?m"
    using assms(1,2) by (rule send_email_reply)
  have irt: "get_all ''In-Reply-To'' ?m = []"
    using assms(3)
    by (simp add: reply_headers_def Let_def get_all_attach get_all_set_header get_all_fresh
        split: option.splits)
  have refs: "get_all ''References'' ?m = (if R = [] then [] else [R])"
    using assms(3,4)
    by (auto simp: reply_headers_def Let_def get_all_attach get_all_set_header get_all_fresh
        split: option.splits)
  show ?thesis
    using built irt refs by blast
qed

text \<open>
  C4 at failing inputs. The original message carries its Message-ID \<open><abc@x>\<close> under the
  name \<open>Message-Id\<close>, as many senders spell it: the reply is built with no In-Reply-To
  and no References header. The original carries References \<open><abc@x>\<close> and its
  Message-ID \<open><def@y>\<close> under that name: the reply has no In-Reply-To header and the
  References \<open><abc@x>\<close>, the Message-ID not appended.
\<close>

theorem reply_threading_other_spelling:
  "map_option (get_all ''In-Reply-To'')
     (fst (send_email (reply_service [(''Message-Id'', ''<abc@x>'')])
             ''ann@example.org'' ''Re: Budget'' ''Agreed.'' (Some ''m1''))) = Some [] \<and>
   map_option (get_all ''References'')
     (fst (send_email (reply_service [(''Message-Id'', ''<abc@x>'')])
             ''ann@example.org'' ''Re: Budget'' ''Agreed.'' (Some ''m1''))) = Some [] \<and>
   map_option (get_all ''In-Reply-To'')
     (fst (send_email (reply_service [(''References'', ''<abc@x>''), (''Message-Id'', ''<def@y>'')])
             ''ann@example.org'' ''Re: Budget'' ''Agreed.'' (Some ''m1''))) = Some [] \<and>
   map_option (get_all ''References'')
     (fst (send_email (reply_service [(''References'', ''<abc@x>''), (''Message-Id'', ''<def@y>'')])
             ''ann@example.org'' ''Re: Budget'' ''Agreed.'' (Some ''m1''))) = Some [''<abc@x>'']"
  by (simp add: send_email_def reply_headers_def reply_service_def Let_def get_all_def
      set_header_def attach_def MIMEMultipart_def startswith_def)

text \<open>
  The subject headers of a reply to a message that the provider returns with Subject \<open>S\<close>
  (empty when absent): the passed subject alone when it starts with \<open>Re:\<close> or \<open>S\<close> is
  blank; otherwise the passed subject and, after it, \<open>Re: \<close> followed by \<open>S\<close>.
\<close>

lemma reply_subject_headers:
  assumes "rid \<noteq> []"
    and "messages_get service rid = Some hs"
    and "S = (case map_of (rev hs) ''Subject'' of Some s \<Rightarrow> s | None \<Rightarrow> [])"
  shows "\<exists>message. fst (send_email service to subject body_text (Some rid)) = Some message \<and>
           get_all ''subject'' message =
             (if startswith subject ''Re:'' \<or> strip S = [] then [subject]
              else [subject, ''Re: '' @ S])"
proof -
  let ?m0 = "set_header ''subject'' subject (set_header ''to'' to MIMEMultipart)"
  let ?m = "attach body_text (reply_headers hs subject ?m0)"
  have built: "fst (send_email service to subject body_text (Some rid)) = Some ?m"
    using assms(1,2) by (rule send_email_reply)
  have subj: "get_all ''subject'' ?m =
      (if startswith subject ''Re:'' \<or> strip S = [] then [subject] else [subject, ''Re: '' @ S])"
    using assms(3)
    by (auto simp: reply_headers_def Let_def get_all_attach get_all_set_header get_all_fresh
        strip_def split: option.splits)
  show ?thesis
    using built subj by auto
qed

text \<open>
  C5 at failing inputs. A reply with subject \<open>Budget\<close> to a message whose Subject is
  \<open>Budget\<close> is built with two subject headers, \<open>Budget\<close> and then \<open>Re: Budget\<close>: the
  assignment meant to update the subject adds a header and leaves the first one, without
  the prefix, in place. A reply with subject \<open>Budget\<close> to a message whose Subject is
  \<open>Re: Budget\<close> gets \<open>Budget\<close> and \<open>Re: Re: Budget\<close>: the test for the prefix looks
  at the passed subject, the prefix is put before the original's.
\<close>

theorem reply_subject_two_headers:
  "map_option (get_all ''subject'')
     (fst (send_email (reply_service [(''Message-ID'', ''<abc@x>''), (''Subject'', ''Budget'')])
             ''ann@example.org'' ''Budget'' ''Agreed.'' (Some ''m1''))) =
     Some [''Budget'', ''Re: Budget''] \<and>
   map_option (get_all ''subject'')
     (fst (send_email (reply_service [(''Message-ID'', ''<abc@x>''), (''Subject'', ''Re: Budget'')])
             ''ann@example.org'' ''Budget'' ''Agreed.'' (Some ''m1''))) =
     Some [''Budget'', ''Re: Re: Budget'']"
  by (simp add: send_email_def reply_headers_def reply_service_def Let_def get_all_def
      set_header_def attach_def MIMEMultipart_def startswith_def strip_def py_isspace_def)

section \<open>The Send Response handler\<close>

lemma save_response_in_cases:
  "save_response_in now rd w = (res, w') \<Longrightarrow>
     (res = Inl IntegrityError \<and> w' = w) \<or>
     (\<exists>row. res = Inr row \<and>
            row = \<lparr>r_id = rd_id rd, r_email_id = rd_email_id rd, r_content = rd_content rd,
                   r_timestamp = (case rd_timestamp rd of Some t \<Rightarrow> t | None \<Rightarrow> now),
                   r_sent = (case rd_sent rd of Some b \<Rightarrow> b | None \<Rightarrow> False)\<rparr> \<and>
            w' = w\<lparr>store := (store w)\<lparr>responses := responses (store w) @ [row]\<rparr>,
                    journal := journal w @ [Committed row]\<rparr>)"
  by (auto simp: save_response_in_def save_response_def Let_def split: if_splits)

text \<open>
  C3. Whenever the handler runs and the send succeeds, the database has gained exactly
  one Response row, with \<open>sent\<close> true, the edited text as content and the id of the
  email, and nothing else in it changed. The journal has gained two entries: first the
  commit of that row, then the call of \<open>send_email\<close> with the sender, \<open>Re: \<close> and the
  subject, the edited text and the id of the email; and the database that call found
  already holds the row.
\<close>

theorem send_response_persists_edited:
  assumes "send_response_handler gmail uid now email draft_response edited_response w =
             (Some (Inr True), w')"
  shows "\<exists>row. responses (store w') = responses (store w) @ [row] \<and>
           r_sent row \<and> r_content row = edited_response \<and> r_email_id row = e_id email \<and>
           emails (store w') = emails (store w) \<and>
           attachments (store w') = attachments (store w) \<and>
           journal w' = journal w @
             [Committed row,
              Send_email_called (e_sender email) (''Re: '' @ e_subject email) edited_response
                (Some (e_id email)) (store w')] \<and>
           row \<in> set (responses (store w'))"
proof (cases "draft_response = []")
  case True
  with assms show ?thesis by (simp add: send_response_handler_def)
next
  case False
  define rd where "rd = \<lparr>rd_id = uid, rd_email_id = e_id email, rd_content = edited_response,
                            rd_timestamp = Some now, rd_sent = Some True\<rparr>"
  obtain res w1 where saved: "save_response_in now rd w = (res, w1)"
    by (cases "save_response_in now rd w") auto
  from save_response_in_cases [OF saved] show ?thesis
  proof (elim disjE conjE exE)
    assume "res = Inl IntegrityError" "w1 = w"
    with assms False saved show ?thesis
      by (simp add: send_response_handler_def Let_def flip: rd_def)
  next
    fix row
    assume res: "res = Inr row"
      and row: "row = \<lparr>r_id = rd_id rd, r_email_id = rd_email_id rd, r_content = rd_content rd,
                   r_timestamp = (case rd_timestamp rd of Some t \<Rightarrow> t | None \<Rightarrow> now),
                   r_sent = (case rd_sent rd of Some b \<Rightarrow> b | None \<Rightarrow> False)\<rparr>"
      and w1: "w1 = w\<lparr>store := (store w)\<lparr>responses := responses (store w) @ [row]\<rparr>,
                    journal := journal w @ [Committed row]\<rparr>"
    from assms False saved res
    have w': "w' = w1\<lparr>journal := journal w1 @
                [Send_email_called (e_sender email) (''Re: '' @ e_subject email) edited_response
                   (Some (e_id email)) (store w1)]\<rparr>"
      by (auto simp: send_response_handler_def send_email_in_def Let_def simp flip: rd_def)
    have fields: "r_sent row" "r_content row = edited_response" "r_email_id row = e_id email"
      by (simp_all add: row rd_def)
    show ?thesis
      using fields by (intro exI [of _ row]) (simp add: w' w1)
  qed
qed

theorem send_response_persists_edited_witness:
  "fst (send_response_handler (reply_service [(''Message-ID'', ''<abc@x>'')]) ''r1'' 9
          (new_email 5 first_mail) ''Drafted text'' ''Edited text'' one_mail_world) =
     Some (Inr True) \<and>
   map r_content (responses (store (snd (send_response_handler
          (reply_service [(''Message-ID'', ''<abc@x>'')]) ''r1'' 9
          (new_email 5 first_mail) ''Drafted text'' ''Edited text'' one_mail_world)))) =
     [''Edited text''] \<and>
   map r_sent (responses (store (snd (send_response_handler
          (reply_service [(''Message-ID'', ''<abc@x>'')]) ''r1'' 9
          (new_email 5 first_mail) ''Drafted text'' ''Edited text'' one_mail_world)))) = [True] \<and>
   length (journal (snd (send_response_handler
          (reply_service [(''Message-ID'', ''<abc@x>'')]) ''r1'' 9
          (new_email 5 first_mail) ''Drafted text'' ''Edited text'' one_mail_world))) = 2"
proof -
  let ?run = "send_response_handler (reply_service [(''Message-ID'', ''<abc@x>'')]) ''r1'' 9
          (new_email 5 first_mail) ''Drafted text'' ''Edited text'' one_mail_world"
  have ok: "fst ?run = Some (Inr True)"
    by (simp add: send_response_handler_def save_response_in_def send_email_in_def
        save_response_def save_email_def send_email_def one_mail_world_def
        reply_service_def empty_db_def new_email_def first_mail_def Let_def)
  have before: "responses (store one_mail_world) = []" "journal one_mail_world = []"
    by (simp_all add: one_mail_world_def save_email_def empty_db_def Let_def)
  have "?run = (Some (Inr True), snd ?run)"
    using ok by (metis prod.collapse)
  from send_response_persists_edited [OF this] before
  have "\<exists>row. responses (store (snd ?run)) = [row] \<and> r_sent row \<and>
           r_content row = ''Edited text'' \<and> length (journal (snd ?run)) = 2"
    by auto
  with ok show ?thesis by auto
qed

section \<open>Calendar: free slots\<close>

lemma walk_events_aware_start:
  "ev_start event = Some (DateTime (Aware s off)) \<Longrightarrow>
     walk_events duration_minutes (event # rest) (Naive t) free_slots = Inl TypeError"
  by simp

lemma available_slots_naive_event:
  "get_available_slots (calendar_with [meeting_naive]) ''2024-05-01'' 60 =
     [\<lparr>slot_start = ''09:00'', slot_end = ''10:00''\<rparr>,
      \<lparr>slot_start = ''10:30'', slot_end = ''17:00''\<rparr>]"
  by (simp add: get_available_slots_def available_slots_body_def calendar_with_def
      meeting_naive_def may_first_def hours_def strftime_HM_def two_digits_def digit_char_def
      Let_def)

lemma available_slots_aware_first:
  assumes "strptime_date service date_str = Some midnight"
    and "events_list service (midnight + hours 9) (midnight + hours 17) = Some (event # rest)"
    and "ev_start event = Some (DateTime (Aware s off))"
  shows "get_available_slots service date_str duration_minutes = []"
  using assms by (simp add: get_available_slots_def available_slots_body_def Let_def)

text \<open>
  C6 at the failing input. The day has one event, from 10:00 to 10:30, with its times as
  the calendar provider writes them (an offset from UTC, here \<open>Z\<close>); 60 minutes are asked
  for. Subtracting the naive window start from the aware event start raises TypeError,
  which the handler of the function turns into the empty list: no slot is returned.
\<close>

theorem available_slots_aware_event:
  "get_available_slots (calendar_with [meeting_utc]) ''2024-05-01'' 60 = []"
  by (simp add: get_available_slots_def available_slots_body_def calendar_with_def
      meeting_utc_def Let_def)

section \<open>Body extraction\<close>











end
